theory Spec2Isabelle
  imports Complex_Main "HOL-Library.Stream"
begin

section \<open>Numbers and errors of the Python program\<close>

text \<open>
  The program computes on Python floats and on NumPy \<open>float64\<close> scalars and arrays.
  A finite float is modelled by the real number it stands for: rounding, overflow and
  underflow are not modelled, and the constants \<open>0.3\<close>, \<open>5.0\<close>, \<open>1e-6\<close>, \<open>1e-8\<close>
  are the rationals they denote. Zero is the positive zero, which is the zero that
  \<open>sigma * sqrt(T)\<close> produces for \<open>sigma \<ge> 0\<close> and \<open>T \<ge> 0\<close>.

  The two kinds of float differ where an operation has no finite result.
  The \<open>math\<close> module and Python's own \<open>/\<close> raise an exception
  (\<open>ValueError\<close>, \<open>ZeroDivisionError\<close>); NumPy returns \<open>inf\<close>, \<open>-inf\<close> or \<open>nan\<close>
  and goes on. Both behaviours are part of the model.
\<close>

datatype error = ZeroDivisionError | ValueError | UnboundLocalError

datatype npfloat = Fin real | PInf | MInf | NaN

instantiation npfloat :: "{uminus, plus, minus, times, inverse}"
begin

fun uminus_npfloat :: "npfloat \<Rightarrow> npfloat" where
  "uminus_npfloat (Fin a) = Fin (- a)"
| "uminus_npfloat PInf = MInf"
| "uminus_npfloat MInf = PInf"
| "uminus_npfloat NaN = NaN"

fun plus_npfloat :: "npfloat \<Rightarrow> npfloat \<Rightarrow> npfloat" where
  "plus_npfloat NaN y = NaN"
| "plus_npfloat x NaN = NaN"
| "plus_npfloat (Fin a) (Fin b) = Fin (a + b)"
| "plus_npfloat (Fin a) y = y"
| "plus_npfloat x (Fin b) = x"
| "plus_npfloat PInf PInf = PInf"
| "plus_npfloat MInf MInf = MInf"
| "plus_npfloat PInf MInf = NaN"
| "plus_npfloat MInf PInf = NaN"

definition minus_npfloat :: "npfloat \<Rightarrow> npfloat \<Rightarrow> npfloat" where
  "minus_npfloat x y = x + (- y)"

text \<open>The sign of a product or quotient with an infinite operand.\<close>

definition signed_inf :: "bool \<Rightarrow> npfloat" where
  "signed_inf positive = (if positive then PInf else MInf)"

fun is_pos :: "npfloat \<Rightarrow> bool" where
  "is_pos (Fin a) = (0 \<le> a)"
| "is_pos PInf = True"
| "is_pos MInf = False"
| "is_pos NaN = False"

fun times_npfloat :: "npfloat \<Rightarrow> npfloat \<Rightarrow> npfloat" where
  "times_npfloat NaN y = NaN"
| "times_npfloat x NaN = NaN"
| "times_npfloat (Fin a) (Fin b) = Fin (a * b)"
| "times_npfloat (Fin a) y = (if a = 0 then NaN else signed_inf (is_pos (Fin a) = is_pos y))"
| "times_npfloat x (Fin b) = (if b = 0 then NaN else signed_inf (is_pos x = is_pos (Fin b)))"
| "times_npfloat x y = signed_inf (is_pos x = is_pos y)"

fun divide_npfloat :: "npfloat \<Rightarrow> npfloat \<Rightarrow> npfloat" where
  "divide_npfloat NaN y = NaN"
| "divide_npfloat x NaN = NaN"
| "divide_npfloat (Fin a) (Fin b) =
     (if b \<noteq> 0 then Fin (a / b)
      else if a = 0 then NaN
      else signed_inf (0 < a))"
| "divide_npfloat (Fin a) y = Fin 0"
| "divide_npfloat x (Fin b) = signed_inf (is_pos x = is_pos (Fin b))"
| "divide_npfloat x y = NaN"

definition inverse_npfloat :: "npfloat \<Rightarrow> npfloat" where
  "inverse_npfloat x = divide (Fin 1) x"

instance ..

end

text \<open>Comparisons with \<open>nan\<close> are false.\<close>

fun np_lt :: "npfloat \<Rightarrow> npfloat \<Rightarrow> bool" where
  "np_lt NaN y = False"
| "np_lt x NaN = False"
| "np_lt (Fin a) (Fin b) = (a < b)"
| "np_lt x PInf = (x \<noteq> PInf)"
| "np_lt MInf y = (y \<noteq> MInf)"
| "np_lt x y = False"

definition np_gt :: "npfloat \<Rightarrow> npfloat \<Rightarrow> bool" where
  "np_gt x y = np_lt y x"

fun np_abs :: "npfloat \<Rightarrow> npfloat" where
  "np_abs (Fin a) = Fin \<bar>a\<bar>"
| "np_abs PInf = PInf"
| "np_abs MInf = PInf"
| "np_abs NaN = NaN"

fun np_log :: "npfloat \<Rightarrow> npfloat" where
  "np_log (Fin a) = (if 0 < a then Fin (ln a) else if a = 0 then MInf else NaN)"
| "np_log PInf = PInf"
| "np_log MInf = NaN"
| "np_log NaN = NaN"

fun np_sqrt :: "npfloat \<Rightarrow> npfloat" where
  "np_sqrt (Fin a) = (if 0 \<le> a then Fin (sqrt a) else NaN)"
| "np_sqrt PInf = PInf"
| "np_sqrt MInf = NaN"
| "np_sqrt NaN = NaN"

fun np_exp :: "npfloat \<Rightarrow> npfloat" where
  "np_exp (Fin a) = Fin (exp a)"
| "np_exp PInf = PInf"
| "np_exp MInf = Fin 0"
| "np_exp NaN = NaN"

text \<open>\<open>np.maximum\<close> propagates \<open>nan\<close>.\<close>

fun np_maximum :: "npfloat \<Rightarrow> npfloat \<Rightarrow> npfloat" where
  "np_maximum NaN y = NaN"
| "np_maximum x NaN = NaN"
| "np_maximum x y = (if np_lt x y then y else x)"

text \<open>
  Python's builtin \<open>min(a, b)\<close> returns \<open>b\<close> when \<open>b < a\<close> and \<open>a\<close> otherwise;
  \<open>max(a, b)\<close> returns \<open>b\<close> when \<open>b > a\<close> and \<open>a\<close> otherwise.
\<close>

definition py_min :: "npfloat \<Rightarrow> npfloat \<Rightarrow> npfloat" where
  "py_min a b = (if np_lt b a then b else a)"

definition py_max :: "npfloat \<Rightarrow> npfloat \<Rightarrow> npfloat" where
  "py_max a b = (if np_gt b a then b else a)"

text \<open>Python's \<open>/\<close>, \<open>math.log\<close> and \<open>math.sqrt\<close> on Python floats.\<close>

definition py_div :: "real \<Rightarrow> real \<Rightarrow> error + real" where
  "py_div a b = (if b = 0 then Inl ZeroDivisionError else Inr (a / b))"

definition math_log :: "real \<Rightarrow> error + real" where
  "math_log x = (if x \<le> 0 then Inl ValueError else Inr (ln x))"

definition math_sqrt :: "real \<Rightarrow> error + real" where
  "math_sqrt x = (if x < 0 then Inl ValueError else Inr (sqrt x))"

text \<open>
  \<open>str.lower\<close> on the ASCII letters: the codes 65 to 90 of \<open>A\<close> to \<open>Z\<close> have
  the bit of value 32 clear, and setting it adds 32.
\<close>

definition lower_char :: "char \<Rightarrow> char" where
  "lower_char c =
     (if (65::nat) \<le> of_char c \<and> of_char c \<le> (90::nat)
      then (case c of Char b0 b1 b2 b3 b4 b5 b6 b7 \<Rightarrow> Char b0 b1 b2 b3 b4 True b6 b7)
      else c)"

definition lower :: "string \<Rightarrow> string" where
  "lower s = map lower_char s"

subsection \<open>The standard normal distribution of \<open>scipy.stats.norm\<close>\<close>

text \<open>
  The density is \<open>exp (- x\<^sup>2 / 2) / sqrt (2 pi)\<close>. The distribution function is the
  integral of the density; it is given here by the power series of that integral
  around \<open>0\<close>, where its value is one half.
\<close>

definition phi :: "real \<Rightarrow> real" where
  "phi x = exp (- (x\<^sup>2) / 2) / sqrt (2 * pi)"

definition Phi_term :: "real \<Rightarrow> nat \<Rightarrow> real" where
  "Phi_term x n = (- 1) ^ n * x ^ (2 * n + 1) / (2 ^ n * fact n * real (2 * n + 1))"

definition Phi :: "real \<Rightarrow> real" where
  "Phi x = 1 / 2 + (\<Sum>n. Phi_term x n) / sqrt (2 * pi)"

fun norm_cdf :: "npfloat \<Rightarrow> npfloat" where
  "norm_cdf (Fin a) = Fin (Phi a)"
| "norm_cdf PInf = Fin 1"
| "norm_cdf MInf = Fin 0"
| "norm_cdf NaN = NaN"

fun norm_pdf :: "npfloat \<Rightarrow> npfloat" where
  "norm_pdf (Fin a) = Fin (phi a)"
| "norm_pdf PInf = Fin 0"
| "norm_pdf MInf = Fin 0"
| "norm_pdf NaN = NaN"

section \<open>Black-Scholes price (\<open>black_scholes.py\<close>)\<close>

text \<open>
  \<open>bs_pricing\<close> computes \<open>d1\<close> and \<open>d2\<close> with NumPy, so only the Python division
  \<open>S/K\<close> can raise before the branch on the option type. When neither branch is taken
  the variable \<open>bs_price\<close> is never assigned and \<open>return bs_price\<close> raises
  \<open>UnboundLocalError\<close>.
\<close>

definition bs_pricing ::
  "real \<Rightarrow> real \<Rightarrow> real \<Rightarrow> real \<Rightarrow> real \<Rightarrow> string \<Rightarrow> real \<Rightarrow> error + npfloat" where
  "bs_pricing S K T r sigma option_type q =
     (case py_div S K of
        Inl e \<Rightarrow> Inl e
      | Inr m \<Rightarrow>
          let d1 = (np_log (Fin m) + Fin ((r - q + 0.5 * sigma\<^sup>2) * T))
                     / (Fin sigma * np_sqrt (Fin T)) :: npfloat;
              d2 = d1 - Fin sigma * np_sqrt (Fin T) :: npfloat
          in if lower option_type = ''call''
             then Inr (Fin S * np_exp (Fin (- q * T)) * norm_cdf d1
                        - Fin K * np_exp (Fin (- r * T)) * norm_cdf d2)
             else if lower option_type = ''put''
             then Inr (Fin K * np_exp (Fin (- r * T)) * norm_cdf (- d2)
                        - Fin S * np_exp (Fin (- q * T)) * norm_cdf (- d1))
             else Inl UnboundLocalError)"

section \<open>Analytic Greeks (\<open>greeks.py\<close>)\<close>

text \<open>
  \<open>d_1\<close> and \<open>d_2\<close> use the \<open>math\<close> module on Python floats: \<open>S/K\<close> and the
  division by \<open>sigma * math.sqrt(T)\<close> raise \<open>ZeroDivisionError\<close> on a zero divisor,
  \<open>math.log\<close> and \<open>math.sqrt\<close> raise \<open>ValueError\<close> outside their domain.
  The operands are evaluated from left to right.
\<close>

definition d_1 :: "real \<Rightarrow> real \<Rightarrow> real \<Rightarrow> real \<Rightarrow> real \<Rightarrow> real \<Rightarrow> error + real" where
  "d_1 S K T r sigma q =
     (case py_div S K of
        Inl e \<Rightarrow> Inl e
      | Inr m \<Rightarrow>
          (case math_log m of
             Inl e \<Rightarrow> Inl e
           | Inr l \<Rightarrow>
               (case math_sqrt T of
                  Inl e \<Rightarrow> Inl e
                | Inr sT \<Rightarrow> py_div (l + (r - q + 0.5 * sigma\<^sup>2) * T) (sigma * sT))))"

definition d_2 :: "real \<Rightarrow> real \<Rightarrow> real \<Rightarrow> real \<Rightarrow> real \<Rightarrow> real \<Rightarrow> error + real" where
  "d_2 S K T r sigma q =
     (case d_1 S K T r sigma q of
        Inl e \<Rightarrow> Inl e
      | Inr d1 \<Rightarrow>
          (case math_sqrt T of
             Inl e \<Rightarrow> Inl e
           | Inr sT \<Rightarrow> Inr (d1 - sigma * sT)))"

record greeks =
  delta :: npfloat
  gamma :: npfloat
  theta :: npfloat
  vega :: npfloat
  rho :: npfloat

text \<open>
  \<open>bs_greeks\<close> calls \<open>d_1\<close> and \<open>d_2\<close> anew in every formula; they are functions of
  their arguments, so the model calls each once, at the place of the first call.
  \<open>norm.cdf\<close> and \<open>norm.pdf\<close> return NumPy scalars, so the divisions in \<open>theta\<close>,
  \<open>gamma\<close> and \<open>vega\<close> are NumPy divisions. With an option type that is neither
  call nor put, \<open>gamma\<close> and \<open>vega\<close> are still computed and building the dictionary
  raises \<open>UnboundLocalError\<close> at \<open>delta\<close>.
\<close>

definition bs_greeks ::
  "real \<Rightarrow> real \<Rightarrow> real \<Rightarrow> real \<Rightarrow> real \<Rightarrow> string \<Rightarrow> real \<Rightarrow> error + greeks" where
  "bs_greeks S K T r sigma option_type q =
     (case d_1 S K T r sigma q of
        Inl e \<Rightarrow> Inl e
      | Inr d1 \<Rightarrow>
     (case math_sqrt T of
        Inl e \<Rightarrow> Inl e
      | Inr sT \<Rightarrow>
     (case d_2 S K T r sigma q of
        Inl e \<Rightarrow> Inl e
      | Inr d2 \<Rightarrow>
          let decay = Fin S * norm_pdf (Fin d1) * Fin sigma * Fin (exp (- q * T)) / Fin (2 * sT);
              gamma_v = Fin (exp (- q * T)) * norm_pdf (Fin d1) / Fin (S * sigma * sT);
              vega_v = Fin (S * exp (- q * T)) * norm_pdf (Fin d1) * Fin sT / Fin 100
          in if lower option_type = ''call''
             then Inr \<lparr>delta = Fin (exp (- q * T)) * norm_cdf (Fin d1),
                       gamma = gamma_v,
                       theta = - (decay + Fin (q * S) * norm_cdf (Fin d1) * Fin (exp (- q * T))
                                   - Fin (r * K * exp (- r * T)) * norm_cdf (Fin d2)),
                       vega = vega_v,
                       rho = Fin (K * T * exp (- r * T)) * norm_cdf (Fin d2)\<rparr>
             else if lower option_type = ''put''
             then Inr \<lparr>delta = Fin (exp (- q * T)) * (norm_cdf (Fin d1) - Fin 1),
                       gamma = gamma_v,
                       theta = - (decay - Fin (q * S) * norm_cdf (Fin (- d1)) * Fin (exp (- q * T))
                                   + Fin (r * K * exp (- r * T)) * norm_cdf (Fin (- d2))),
                       vega = vega_v,
                       rho = Fin (- K * T * exp (- r * T)) * norm_cdf (Fin (- d2))\<rparr>
             else Inl UnboundLocalError)))"

section \<open>Monte Carlo price (\<open>monte_carlo.py\<close>)\<close>

text \<open>
  The random source is process-wide state. It is modelled as a stream of the draws still
  to come: \<open>np.random.standard_normal(n)\<close> takes the next \<open>n\<close> draws and leaves the
  rest, and raises \<open>ValueError\<close> for a negative \<open>n\<close>.
\<close>

type_synonym rng = "real stream"

definition standard_normal :: "int \<Rightarrow> rng \<Rightarrow> (error + real list) \<times> rng" where
  "standard_normal n g =
     (if n < 0 then (Inl ValueError, g)
      else (Inr (stake (nat n) g), sdrop (nat n) g))"

fun np_sum :: "npfloat list \<Rightarrow> npfloat" where
  "np_sum [] = Fin 0"
| "np_sum (x # xs) = x + np_sum xs"

text \<open>\<open>np.mean\<close> of an empty array is \<open>nan\<close>, the quotient \<open>0/0\<close>.\<close>

definition np_mean :: "npfloat list \<Rightarrow> npfloat" where
  "np_mean xs = np_sum xs / Fin (real (length xs))"

text \<open>The terminal price of one path under geometric Brownian motion.\<close>

definition terminal_price :: "real \<Rightarrow> real \<Rightarrow> real \<Rightarrow> real \<Rightarrow> real \<Rightarrow> real \<Rightarrow> npfloat" where
  "terminal_price S T r sigma q z =
     Fin S * np_exp (Fin ((r - q - 0.5 * sigma\<^sup>2) * T) + Fin sigma * np_sqrt (Fin T) * Fin z)"

text \<open>
  The part of \<open>mc_pricing\<close> after the draw. With an option type that is neither call
  nor put, \<open>option_payoff\<close> is never assigned and \<open>np.mean(option_payoff)\<close> raises
  \<open>UnboundLocalError\<close>.
\<close>

definition mc_price_of_draws ::
  "real \<Rightarrow> real \<Rightarrow> real \<Rightarrow> real \<Rightarrow> real \<Rightarrow> string \<Rightarrow> real \<Rightarrow> real list \<Rightarrow> error + npfloat" where
  "mc_price_of_draws S K T r sigma option_type q Z =
     (let final_stock_price = map (terminal_price S T r sigma q) Z
      in if lower option_type = ''call''
         then Inr (np_exp (Fin (- r * T))
                    * np_mean (map (\<lambda>s. np_maximum (s - Fin K) (Fin 0)) final_stock_price))
         else if lower option_type = ''put''
         then Inr (np_exp (Fin (- r * T))
                    * np_mean (map (\<lambda>s. np_maximum (Fin K - s) (Fin 0)) final_stock_price))
         else Inl UnboundLocalError)"

definition mc_pricing ::
  "real \<Rightarrow> real \<Rightarrow> real \<Rightarrow> real \<Rightarrow> real \<Rightarrow> string \<Rightarrow> int \<Rightarrow> real \<Rightarrow> rng
     \<Rightarrow> (error + npfloat) \<times> rng" where
  "mc_pricing S K T r sigma option_type n q g =
     (case standard_normal n g of
        (Inl e, g') \<Rightarrow> (Inl e, g')
      | (Inr Z, g') \<Rightarrow> (mc_price_of_draws S K T r sigma option_type q Z, g'))"

text \<open>
  \<open>mc_convergence\<close> returns the Python list \<open>prices\<close>, to which it appends
  \<open>float(price)\<close> for every element of \<open>n_values\<close>. Python values are dynamically
  typed; the values a list may hold are modelled by \<open>pyval\<close>.
\<close>

datatype pyval = PyFloat npfloat | PyInt int | PyTuple "pyval list" | PyList "pyval list"

fun mc_convergence_loop ::
  "real \<Rightarrow> real \<Rightarrow> real \<Rightarrow> real \<Rightarrow> real \<Rightarrow> string \<Rightarrow> real \<Rightarrow> int list \<Rightarrow> pyval list \<Rightarrow> rng
     \<Rightarrow> (error + pyval) \<times> rng" where
  "mc_convergence_loop S K T r sigma option_type q [] prices g = (Inr (PyList prices), g)"
| "mc_convergence_loop S K T r sigma option_type q (sim_num # rest) prices g =
     (case mc_pricing S K T r sigma option_type sim_num q g of
        (Inl e, g') \<Rightarrow> (Inl e, g')
      | (Inr price, g') \<Rightarrow>
          mc_convergence_loop S K T r sigma option_type q rest (prices @ [PyFloat price]) g')"

definition mc_convergence ::
  "real \<Rightarrow> real \<Rightarrow> real \<Rightarrow> real \<Rightarrow> real \<Rightarrow> string \<Rightarrow> real \<Rightarrow> int list \<Rightarrow> rng
     \<Rightarrow> (error + pyval) \<times> rng" where
  "mc_convergence S K T r sigma option_type q n_values g =
     mc_convergence_loop S K T r sigma option_type q n_values [] g"

section \<open>Monte Carlo Greeks (\<open>greeks.py\<close>)\<close>

text \<open>
  A comparison of an array with a number gives an array of booleans, which multiply as
  \<open>1.0\<close> and \<open>0.0\<close>.
\<close>

definition mask :: "bool \<Rightarrow> npfloat" where
  "mask b = (if b then Fin 1 else Fin 0)"

definition payoff_of :: "string \<Rightarrow> real \<Rightarrow> npfloat \<Rightarrow> npfloat" where
  "payoff_of option_type K s =
     (if lower option_type = ''call'' then np_maximum (s - Fin K) (Fin 0)
      else np_maximum (Fin K - s) (Fin 0))"

text \<open>
  The part of \<open>mc_greeks\<close> after the draw. The first statement that needs a branch of
  the option type is \<open>np.mean(payoff)\<close>, which raises \<open>UnboundLocalError\<close> when
  neither branch was taken; \<open>payoff_of\<close> is used below that point only, where the
  option type is call or put. All arithmetic is NumPy arithmetic and does not raise.
\<close>

definition mc_greeks_of_draws ::
  "real \<Rightarrow> real \<Rightarrow> real \<Rightarrow> real \<Rightarrow> real \<Rightarrow> string \<Rightarrow> real \<Rightarrow> real \<Rightarrow> real \<Rightarrow> real list
     \<Rightarrow> error + greeks" where
  "mc_greeks_of_draws S K T r sigma option_type h dt q Z =
     (if lower option_type \<noteq> ''call'' \<and> lower option_type \<noteq> ''put''
      then Inl UnboundLocalError
      else
        let is_call = (lower option_type = ''call'');
            final_stock_price = map (terminal_price S T r sigma q) Z;
            payoff = map (payoff_of option_type K) final_stock_price;
            option_price = np_exp (Fin (- r * T)) * np_mean payoff;
            delta_v =
              (if is_call
               then np_exp (Fin (- r * T))
                      * np_mean (map (\<lambda>s. mask (np_gt s (Fin K)) * s / Fin S) final_stock_price)
               else np_exp (Fin (- r * T))
                      * np_mean (map (\<lambda>s. mask (np_lt s (Fin K)) * (- s / Fin S)) final_stock_price));
            vega_v =
              (if is_call
               then np_exp (Fin (- r * T))
                      * np_mean (map2 (\<lambda>s z. mask (np_gt s (Fin K)) * s * np_sqrt (Fin T) * Fin z)
                                   final_stock_price Z) / Fin 100
               else np_exp (Fin (- r * T))
                      * np_mean (map2 (\<lambda>s z. mask (np_lt s (Fin K)) * (- s * np_sqrt (Fin T) * Fin z))
                                   final_stock_price Z) / Fin 100);
            rho_v =
              (if is_call
               then np_exp (Fin (- r * T))
                      * np_mean (map (\<lambda>s. mask (np_gt s (Fin K)) * s * Fin T) final_stock_price)
               else np_exp (Fin (- r * T))
                      * np_mean (map (\<lambda>s. mask (np_lt s (Fin K)) * (- s * Fin T)) final_stock_price));
            stock_price_up = map (terminal_price (S + h) T r sigma q) Z;
            stock_price_down = map (terminal_price (S - h) T r sigma q) Z;
            option_price_up =
              np_exp (Fin (- r * T)) * np_mean (map (payoff_of option_type K) stock_price_up);
            option_price_down =
              np_exp (Fin (- r * T)) * np_mean (map (payoff_of option_type K) stock_price_down);
            gamma_v = (option_price_up - Fin 2 * option_price + option_price_down) / Fin (h\<^sup>2);
            time_dt = max (T - dt) (1 / 10 ^ 8);
            final_price_dt = map (terminal_price S time_dt r sigma q) Z;
            price_dt =
              np_exp (Fin (- r * time_dt)) * np_mean (map (payoff_of option_type K) final_price_dt);
            theta_v = (price_dt - option_price) / Fin dt
        in Inr \<lparr>delta = delta_v, gamma = gamma_v, theta = theta_v, vega = vega_v, rho = rho_v\<rparr>)"

definition mc_greeks ::
  "real \<Rightarrow> real \<Rightarrow> real \<Rightarrow> real \<Rightarrow> real \<Rightarrow> string \<Rightarrow> int \<Rightarrow> real \<Rightarrow> real \<Rightarrow> real \<Rightarrow> rng
     \<Rightarrow> (error + greeks) \<times> rng" where
  "mc_greeks S K T r sigma option_type n h dt q g =
     (case standard_normal n g of
        (Inl e, g') \<Rightarrow> (Inl e, g')
      | (Inr Z, g') \<Rightarrow> (mc_greeks_of_draws S K T r sigma option_type h dt q Z, g'))"

section \<open>Implied volatility (\<open>black_scholes.py\<close>)\<close>

text \<open>
  The bisection loop, \<open>range(max_iter)\<close> counted down. It returns \<open>None\<close> when the
  iterations are used up.
\<close>

fun bisection ::
  "real \<Rightarrow> real \<Rightarrow> real \<Rightarrow> real \<Rightarrow> real \<Rightarrow> string \<Rightarrow> real \<Rightarrow> real \<Rightarrow> nat \<Rightarrow> real \<Rightarrow> real
     \<Rightarrow> error + real option" where
  "bisection market_price S K T r option_type q tolerance_price 0 low high = Inr None"
| "bisection market_price S K T r option_type q tolerance_price (Suc i) low high =
     (let mid = (low + high) / 2
      in case bs_pricing S K T r mid option_type q of
           Inl e \<Rightarrow> Inl e
         | Inr price \<Rightarrow>
             if np_lt (np_abs (price - Fin market_price)) (Fin tolerance_price)
             then Inr (Some mid)
             else if np_gt price (Fin market_price)
             then bisection market_price S K T r option_type q tolerance_price i low mid
             else bisection market_price S K T r option_type q tolerance_price i mid high)"

text \<open>The statements after the Newton-Raphson loop.\<close>

definition bisection_phase ::
  "real \<Rightarrow> real \<Rightarrow> real \<Rightarrow> real \<Rightarrow> real \<Rightarrow> string \<Rightarrow> real \<Rightarrow> nat \<Rightarrow> real \<Rightarrow> error + real option" where
  "bisection_phase market_price S K T r option_type error_tolerance max_iter q =
     bisection market_price S K T r option_type q (error_tolerance * max 1 market_price)
       max_iter (1 / 10 ^ 6) 5"

text \<open>\<open>sigma = max(min(sigma, 5.0), 1e-6)\<close>\<close>

definition clamp_sigma :: "npfloat \<Rightarrow> npfloat" where
  "clamp_sigma x = py_max (py_min x (Fin 5)) (Fin (1 / 10 ^ 6))"

text \<open>
  The Newton-Raphson loop; \<open>i\<close> counts the iterations left and \<open>max_iter\<close> is kept for
  the bisection phase. The updated \<open>sigma\<close> is a NumPy scalar. Were it \<open>nan\<close>, every
  later comparison of the loop would be false and the loop would run to its end without
  returning, so the model goes on to the bisection phase at once.
\<close>

fun newton ::
  "real \<Rightarrow> real \<Rightarrow> real \<Rightarrow> real \<Rightarrow> real \<Rightarrow> string \<Rightarrow> real \<Rightarrow> nat \<Rightarrow> real \<Rightarrow> nat \<Rightarrow> real
     \<Rightarrow> error + real option" where
  "newton market_price S K T r option_type error_tolerance max_iter q 0 sigma =
     bisection_phase market_price S K T r option_type error_tolerance max_iter q"
| "newton market_price S K T r option_type error_tolerance max_iter q (Suc i) sigma =
     (case bs_pricing S K T r sigma option_type q of
        Inl e \<Rightarrow> Inl e
      | Inr model_price \<Rightarrow>
     (case bs_greeks S K T r sigma option_type q of
        Inl e \<Rightarrow> Inl e
      | Inr g \<Rightarrow>
          let difference = model_price - Fin market_price
          in if np_lt (np_abs difference) (Fin (error_tolerance * max 1 market_price))
             then Inr (Some sigma)
             else if np_lt (vega g) (Fin (1 / 10 ^ 8))
             then bisection_phase market_price S K T r option_type error_tolerance max_iter q
             else (case clamp_sigma (Fin sigma - difference / vega g) of
                     Fin sigma' \<Rightarrow>
                       newton market_price S K T r option_type error_tolerance max_iter q i sigma'
                   | _ \<Rightarrow>
                       bisection_phase market_price S K T r option_type error_tolerance max_iter q)))"

definition implied_volatility ::
  "real \<Rightarrow> real \<Rightarrow> real \<Rightarrow> real \<Rightarrow> real \<Rightarrow> string \<Rightarrow> real \<Rightarrow> int \<Rightarrow> real \<Rightarrow> error + real option" where
  "implied_volatility market_price S K T r option_type error_tolerance max_iter q =
     newton market_price S K T r option_type error_tolerance (nat max_iter) q (nat max_iter) (3 / 10)"

section \<open>The closed formulas of the specification\<close>

text \<open>
  The Black-Scholes terms as the specification writes them, over the reals:
  \<open>d1 = (ln(S/K) + (r - q + sigma\<^sup>2/2) T) / (sigma sqrt(T))\<close>, \<open>d2 = d1 - sigma sqrt(T)\<close>,
  the call price \<open>S e\<^sup>-\<^sup>q\<^sup>T Phi(d1) - K e\<^sup>-\<^sup>r\<^sup>T Phi(d2)\<close> and the put price
  \<open>K e\<^sup>-\<^sup>r\<^sup>T Phi(-d2) - S e\<^sup>-\<^sup>q\<^sup>T Phi(-d1)\<close>.
\<close>

definition d1_formula :: "real \<Rightarrow> real \<Rightarrow> real \<Rightarrow> real \<Rightarrow> real \<Rightarrow> real \<Rightarrow> real" where
  "d1_formula S K T r sigma q = (ln (S / K) + (r - q + sigma\<^sup>2 / 2) * T) / (sigma * sqrt T)"

definition d2_formula :: "real \<Rightarrow> real \<Rightarrow> real \<Rightarrow> real \<Rightarrow> real \<Rightarrow> real \<Rightarrow> real" where
  "d2_formula S K T r sigma q = d1_formula S K T r sigma q - sigma * sqrt T"

definition call_formula :: "real \<Rightarrow> real \<Rightarrow> real \<Rightarrow> real \<Rightarrow> real \<Rightarrow> real \<Rightarrow> real" where
  "call_formula S K T r sigma q =
     S * exp (- q * T) * Phi (d1_formula S K T r sigma q)
       - K * exp (- r * T) * Phi (d2_formula S K T r sigma q)"

definition put_formula :: "real \<Rightarrow> real \<Rightarrow> real \<Rightarrow> real \<Rightarrow> real \<Rightarrow> real \<Rightarrow> real" where
  "put_formula S K T r sigma q =
     K * exp (- r * T) * Phi (- d2_formula S K T r sigma q)
       - S * exp (- q * T) * Phi (- d1_formula S K T r sigma q)"

definition price_formula :: "string \<Rightarrow> real \<Rightarrow> real \<Rightarrow> real \<Rightarrow> real \<Rightarrow> real \<Rightarrow> real \<Rightarrow> real" where
  "price_formula option_type S K T r sigma q =
     (if lower option_type = ''call'' then call_formula S K T r sigma q
      else put_formula S K T r sigma q)"

text \<open>The vega of the specification, scaled by \<open>1/100\<close>.\<close>

definition vega_formula :: "real \<Rightarrow> real \<Rightarrow> real \<Rightarrow> real \<Rightarrow> real \<Rightarrow> real \<Rightarrow> real" where
  "vega_formula S K T r sigma q =
     S * exp (- q * T) * phi (d1_formula S K T r sigma q) * sqrt T / 100"

text \<open>
  The option type is accepted in any letter case; it is a call or a put when its
  lower-case form is \<open>call\<close> or \<open>put\<close>.
\<close>

definition is_kind :: "string \<Rightarrow> bool" where
  "is_kind option_type = (lower option_type = ''call'' \<or> lower option_type = ''put'')"

text \<open>
  The Monte Carlo estimator of the specification: the terminal price
  \<open>S exp((r - q - sigma\<^sup>2/2) T + sigma sqrt(T) z)\<close> of a draw \<open>z\<close> and the payoff
  \<open>max(S\<^sub>T - K, 0)\<close> of a call, \<open>max(K - S\<^sub>T, 0)\<close> of a put.
\<close>

definition terminal_formula :: "real \<Rightarrow> real \<Rightarrow> real \<Rightarrow> real \<Rightarrow> real \<Rightarrow> real \<Rightarrow> real" where
  "terminal_formula S T r sigma q z = S * exp ((r - q - sigma\<^sup>2 / 2) * T + sigma * sqrt T * z)"

definition payoff_formula :: "string \<Rightarrow> real \<Rightarrow> real \<Rightarrow> real" where
  "payoff_formula option_type K s =
     (if lower option_type = ''call'' then max (s - K) 0 else max (K - s) 0)"

text \<open>
  The NumPy value that \<open>mc_pricing\<close> computes from the draws \<open>Z\<close> for a call or a put,
  and the prices of a convergence series: one estimate per path count, each on the next
  draws of the random source.
\<close>

definition mc_estimate ::
  "real \<Rightarrow> real \<Rightarrow> real \<Rightarrow> real \<Rightarrow> real \<Rightarrow> string \<Rightarrow> real \<Rightarrow> real list \<Rightarrow> npfloat" where
  "mc_estimate S K T r sigma option_type q Z =
     np_exp (Fin (- r * T))
       * np_mean (map (payoff_of option_type K) (map (terminal_price S T r sigma q) Z))"

fun convergence_prices ::
  "real \<Rightarrow> real \<Rightarrow> real \<Rightarrow> real \<Rightarrow> real \<Rightarrow> string \<Rightarrow> real \<Rightarrow> int list \<Rightarrow> rng \<Rightarrow> npfloat list" where
  "convergence_prices S K T r sigma option_type q [] g = []"
| "convergence_prices S K T r sigma option_type q (n # ns) g =
     mc_estimate S K T r sigma option_type q (stake (nat n) g)
       # convergence_prices S K T r sigma option_type q ns (sdrop (nat n) g)"

text \<open>A pair \<open>(path count, price)\<close> with the path count \<open>n\<close>, as a Python value.\<close>

fun is_count_price_pair :: "int \<Rightarrow> pyval \<Rightarrow> bool" where
  "is_count_price_pair n (PyTuple [PyInt k, PyFloat p]) = (k = n)"
| "is_count_price_pair n v = False"

section \<open>Arithmetic of NumPy scalars\<close>

lemma minus_npfloat_simps [simp]:
  "Fin a - Fin b = Fin (a - b)"
  "NaN - y = NaN"
  "Fin a - NaN = NaN"
  "PInf - NaN = NaN"
  "MInf - NaN = NaN"
  "PInf - Fin b = PInf"
  "MInf - Fin b = MInf"
  "Fin a - PInf = MInf"
  "Fin a - MInf = PInf"
  by (simp_all add: minus_npfloat_def)

section \<open>The distribution function is symmetric\<close>

lemma Phi_term_bound: "norm (Phi_term x n) \<le> \<bar>x\<bar> * (inverse (fact n) * (x\<^sup>2 / 2) ^ n)"
proof -
  have "norm (Phi_term x n) = \<bar>x\<bar> ^ (2 * n + 1) / (2 ^ n * fact n * real (2 * n + 1))"
    by (simp add: Phi_term_def abs_mult power_abs)
  also have "\<dots> \<le> \<bar>x\<bar> ^ (2 * n + 1) / (2 ^ n * fact n * 1)"
    by (intro divide_left_mono mult_left_mono) auto
  also have "\<dots> = \<bar>x\<bar> * (inverse (fact n) * (x\<^sup>2 / 2) ^ n)"
    by (simp add: power_mult field_simps power2_eq_square flip: power_abs)
  finally show ?thesis .
qed

lemma summable_Phi_term: "summable (Phi_term x)"
proof (rule summable_comparison_test')
  show "summable (\<lambda>n. \<bar>x\<bar> * (inverse (fact n) * (x\<^sup>2 / 2) ^ n))"
    by (intro summable_mult summable_exp)
  show "norm (Phi_term x n) \<le> \<bar>x\<bar> * (inverse (fact n) * (x\<^sup>2 / 2) ^ n)" for n
    by (rule Phi_term_bound)
qed

lemma Phi_term_minus: "Phi_term (- x) n = - Phi_term x n"
  by (simp add: Phi_term_def)

lemma Phi_minus: "Phi (- x) = 1 - Phi x"
  by (simp add: Phi_def Phi_term_minus suminf_minus [OF summable_Phi_term] field_simps)

section \<open>The pricer on positive inputs\<close>

lemma bs_pricing_finite:
  assumes "0 < S" "0 < K" "0 < T" "sigma \<noteq> 0"
  shows "bs_pricing S K T r sigma option_type q =
           (if lower option_type = ''call'' then Inr (Fin (call_formula S K T r sigma q))
            else if lower option_type = ''put'' then Inr (Fin (put_formula S K T r sigma q))
            else Inl UnboundLocalError)"
  using assms
  by (simp add: bs_pricing_def py_div_def call_formula_def put_formula_def
      d1_formula_def d2_formula_def Let_def)

lemma d_1_finite:
  assumes "0 < S" "0 < K" "0 < T" "sigma \<noteq> 0"
  shows "d_1 S K T r sigma q = Inr (d1_formula S K T r sigma q)"
  using assms
  by (simp add: d_1_def py_div_def math_log_def math_sqrt_def d1_formula_def not_le)

lemma d_2_finite:
  assumes "0 < S" "0 < K" "0 < T" "sigma \<noteq> 0"
  shows "d_2 S K T r sigma q = Inr (d2_formula S K T r sigma q)"
  using assms by (simp add: d_2_def d_1_finite math_sqrt_def d2_formula_def)

section \<open>Put-call parity\<close>

text \<open>
  Claim C2. For positive \<open>S\<close>, \<open>K\<close>, \<open>T\<close> and \<open>sigma\<close>, \<open>bs_pricing\<close> returns a finite
  price for the call and for the put with the same \<open>S\<close>, \<open>K\<close>, \<open>T\<close>, \<open>r\<close>, \<open>sigma\<close>,
  \<open>q\<close>, and the call price minus the put price is \<open>S e\<^sup>-\<^sup>q\<^sup>T - K e\<^sup>-\<^sup>r\<^sup>T\<close>.
\<close>

theorem put_call_parity:
  assumes "0 < S" "0 < K" "0 < T" "0 < sigma"
    and "lower call_type = ''call''" "lower put_type = ''put''"
  shows "\<exists>c p. bs_pricing S K T r sigma call_type q = Inr (Fin c)
             \<and> bs_pricing S K T r sigma put_type q = Inr (Fin p)
             \<and> c - p = S * exp (- q * T) - K * exp (- r * T)"
proof -
  have ne: "sigma \<noteq> 0" using assms by simp
  have "call_formula S K T r sigma q - put_formula S K T r sigma q
          = S * exp (- q * T) - K * exp (- r * T)"
    by (simp add: call_formula_def put_formula_def Phi_minus algebra_simps)
  then show ?thesis
    using bs_pricing_finite [OF assms(1-3) ne] assms(5,6) by simp
qed

theorem put_call_parity_witness:
  "(0::real) < 100 \<and> (0::real) < 115 \<and> (0::real) < 1 / 2 \<and> (0::real) < 2 / 10
   \<and> lower ''call'' = ''call'' \<and> lower ''Put'' = ''put''
   \<and> (\<exists>c p. bs_pricing 100 115 (1 / 2) (5 / 100) (2 / 10) ''call'' 0 = Inr (Fin c)
            \<and> bs_pricing 100 115 (1 / 2) (5 / 100) (2 / 10) ''Put'' 0 = Inr (Fin p)
            \<and> c - p = 100 * exp (- 0 * (1 / 2)) - 115 * exp (- (5 / 100) * (1 / 2)))"
proof -
  have k: "lower ''call'' = ''call''" "lower ''Put'' = ''put''"
    by (simp_all add: lower_def lower_char_def)
  show ?thesis
    using put_call_parity [of 100 115 "1 / 2" "2 / 10" "''call''" "''Put''" "5 / 100" 0] k
    by simp
qed

lemma bs_greeks_finite:
  assumes "0 < S" "0 < K" "0 < T" "sigma \<noteq> 0" "is_kind option_type"
  shows "\<exists>g. bs_greeks S K T r sigma option_type q = Inr g
           \<and> delta g = (if lower option_type = ''call''
                         then Fin (exp (- q * T) * Phi (d1_formula S K T r sigma q))
                         else Fin (exp (- q * T) * (Phi (d1_formula S K T r sigma q) - 1)))
           \<and> vega g = Fin (vega_formula S K T r sigma q)"
  using assms
  by (auto simp add: bs_greeks_def d_1_finite d_2_finite math_sqrt_def Let_def is_kind_def
      vega_formula_def)


section \<open>Delta parity\<close>

text \<open>
  Claim C8. For positive \<open>S\<close>, \<open>K\<close>, \<open>T\<close> and \<open>sigma\<close>, \<open>bs_greeks\<close> returns the
  Greeks of the call and of the put with the same \<open>S\<close>, \<open>K\<close>, \<open>T\<close>, \<open>r\<close>, \<open>sigma\<close>,
  \<open>q\<close>, both deltas are finite, and the delta of the call minus the delta of the put
  is \<open>e\<^sup>-\<^sup>q\<^sup>T\<close>.
\<close>

theorem delta_parity:
  assumes "0 < S" "0 < K" "0 < T" "0 < sigma"
    and "lower call_type = ''call''" "lower put_type = ''put''"
  shows "\<exists>gc gp dc dp. bs_greeks S K T r sigma call_type q = Inr gc
             \<and> bs_greeks S K T r sigma put_type q = Inr gp
             \<and> delta gc = Fin dc \<and> delta gp = Fin dp
             \<and> dc - dp = exp (- q * T)"
proof -
  have ne: "sigma \<noteq> 0" using assms by simp
  obtain gc where gc: "bs_greeks S K T r sigma call_type q = Inr gc"
      "delta gc = Fin (exp (- q * T) * Phi (d1_formula S K T r sigma q))"
    using bs_greeks_finite [OF assms(1-3) ne, of call_type r q] assms(5)
    by (auto simp add: is_kind_def)
  obtain gp where gp: "bs_greeks S K T r sigma put_type q = Inr gp"
      "delta gp = Fin (exp (- q * T) * (Phi (d1_formula S K T r sigma q) - 1))"
    using bs_greeks_finite [OF assms(1-3) ne, of put_type r q] assms(6)
    by (auto simp add: is_kind_def)
  have "exp (- q * T) * Phi (d1_formula S K T r sigma q)
          - exp (- q * T) * (Phi (d1_formula S K T r sigma q) - 1) = exp (- q * T)"
    by (simp add: algebra_simps)
  with gc gp show ?thesis by blast
qed

theorem delta_parity_witness:
  "(0::real) < 150 \<and> (0::real) < 175 \<and> (0::real) < 1 / 2 \<and> (0::real) < 25 / 100
   \<and> lower ''call'' = ''call'' \<and> lower ''PUT'' = ''put''
   \<and> (\<exists>gc gp dc dp. bs_greeks 150 175 (1 / 2) (426 / 10000) (25 / 100) ''call'' (1 / 100) = Inr gc
            \<and> bs_greeks 150 175 (1 / 2) (426 / 10000) (25 / 100) ''PUT'' (1 / 100) = Inr gp
            \<and> delta gc = Fin dc \<and> delta gp = Fin dp
            \<and> dc - dp = exp (- (1 / 100) * (1 / 2)))"
proof -
  have k: "lower ''call'' = ''call''" "lower ''PUT'' = ''put''"
    by (simp_all add: lower_def lower_char_def)
  show ?thesis
    using delta_parity [of 150 175 "1 / 2" "25 / 100" "''call''" "''PUT''" "426 / 10000" "1 / 100"] k
    by simp
qed

section \<open>Zero volatility and zero time to expiry\<close>

lemma forward_sign:
  fixes S K r q T :: real
  assumes "0 < S" "0 < K"
  shows "(0 < ln (S / K) + (r - q) * T) = (K * exp (- r * T) < S * exp (- q * T))"
    and "(ln (S / K) + (r - q) * T < 0) = (S * exp (- q * T) < K * exp (- r * T))"
proof -
  have S: "S * exp (- q * T) = exp (ln S - q * T)"
    using exp_add [of "ln S" "- (q * T)"] assms by simp
  have K: "K * exp (- r * T) = exp (ln K - r * T)"
    using exp_add [of "ln K" "- (r * T)"] assms by simp
  have m: "ln (S / K) + (r - q) * T = (ln S - q * T) - (ln K - r * T)"
    using assms by (simp add: ln_div algebra_simps)
  show "(0 < ln (S / K) + (r - q) * T) = (K * exp (- r * T) < S * exp (- q * T))"
    unfolding S K m by simp
  show "(ln (S / K) + (r - q) * T < 0) = (S * exp (- q * T) < K * exp (- r * T))"
    unfolding S K m by simp
qed

lemma zero_denominator:
  fixes T sigma r q :: real
  assumes "0 \<le> T" "0 \<le> sigma" "sigma = 0 \<or> T = 0"
  shows "sigma * sqrt T = 0" "(r - q + sigma\<^sup>2 / 2) * T = (r - q) * T"
  using assms by auto

text \<open>
  Claim C1, as the code has it. For \<open>S > 0\<close>, \<open>K > 0\<close>, \<open>T \<ge> 0\<close>, \<open>sigma \<ge> 0\<close> with
  \<open>sigma = 0\<close> or \<open>T = 0\<close> nothing is special-cased and the division by
  \<open>sigma * sqrt(T) = 0\<close> is carried out. \<open>d_1\<close> and \<open>d_2\<close> raise
  \<open>ZeroDivisionError\<close>. \<open>bs_pricing\<close> divides with NumPy: when
  \<open>ln(S/K) + (r - q) T\<close> is not zero, \<open>d1\<close> is infinite and the price is the finite
  discounted intrinsic value, \<open>max(S e\<^sup>-\<^sup>q\<^sup>T - K e\<^sup>-\<^sup>r\<^sup>T, 0)\<close> for a call and
  \<open>max(K e\<^sup>-\<^sup>r\<^sup>T - S e\<^sup>-\<^sup>q\<^sup>T, 0)\<close> for a put; when it is zero, \<open>d1\<close> is \<open>0/0\<close> and the
  price is \<open>nan\<close>.
\<close>

theorem degenerate_inputs_divide_by_zero:
  assumes "0 < S" "0 < K" "0 \<le> T" "0 \<le> sigma" "sigma = 0 \<or> T = 0"
  shows "d_1 S K T r sigma q = Inl ZeroDivisionError
       \<and> d_2 S K T r sigma q = Inl ZeroDivisionError
       \<and> bs_pricing S K T r sigma ''call'' q
           = Inr (if ln (S / K) + (r - q) * T = 0 then NaN
                  else Fin (max (S * exp (- q * T) - K * exp (- r * T)) 0))
       \<and> bs_pricing S K T r sigma ''put'' q
           = Inr (if ln (S / K) + (r - q) * T = 0 then NaN
                  else Fin (max (K * exp (- r * T) - S * exp (- q * T)) 0))"
proof -
  let ?m = "ln (S / K) + (r - q) * T"
  note z = zero_denominator [OF assms(3-5)]
  have d1: "d_1 S K T r sigma q = Inl ZeroDivisionError"
    using assms(1-3) z(1)
    by (simp add: d_1_def py_div_def math_log_def math_sqrt_def not_le)
  have d2: "d_2 S K T r sigma q = Inl ZeroDivisionError"
    by (simp add: d_2_def d1)
  have kinds: "lower ''call'' = ''call''" "lower ''put'' \<noteq> ''call''" "lower ''put'' = ''put''"
    by (simp_all add: lower_def lower_char_def)
  consider "?m = 0" | "0 < ?m" | "?m < 0" by linarith
  then have "bs_pricing S K T r sigma ''call'' q
           = Inr (if ?m = 0 then NaN
                  else Fin (max (S * exp (- q * T) - K * exp (- r * T)) 0))
       \<and> bs_pricing S K T r sigma ''put'' q
           = Inr (if ?m = 0 then NaN
                  else Fin (max (K * exp (- r * T) - S * exp (- q * T)) 0))"
  proof cases
    case 1
    then show ?thesis
      using assms(1-3)
      by (simp add: bs_pricing_def py_div_def Let_def z kinds)
  next
    case 2
    with forward_sign(1) [OF assms(1,2), of r q T]
    have "K * exp (- (r * T)) < S * exp (- (q * T))" by simp
    with 2 show ?thesis
      using assms(1-3)
      by (simp add: bs_pricing_def py_div_def Let_def z kinds signed_inf_def)
  next
    case 3
    with forward_sign(2) [OF assms(1,2), of r q T]
    have "S * exp (- (q * T)) < K * exp (- (r * T))" by simp
    with 3 show ?thesis
      using assms(1-3)
      by (simp add: bs_pricing_def py_div_def Let_def z kinds signed_inf_def)
  qed
  with d1 d2 show ?thesis by simp
qed

theorem degenerate_inputs_divide_by_zero_witness:
  "(0::real) < 100 \<and> (0::real) < 90 \<and> (0::real) \<le> 1 \<and> (0::real) \<le> 0 \<and> ((0::real) = 0 \<or> (1::real) = 0)
   \<and> d_1 100 90 1 (5 / 100) 0 0 = Inl ZeroDivisionError
   \<and> d_2 100 90 1 (5 / 100) 0 0 = Inl ZeroDivisionError
   \<and> bs_pricing 100 90 1 (5 / 100) 0 ''call'' 0
       = Inr (if ln (100 / 90) + (5 / 100 - 0) * 1 = (0::real) then NaN
              else Fin (max (100 * exp (- 0 * 1) - 90 * exp (- (5 / 100) * 1)) 0))
   \<and> bs_pricing 100 90 1 (5 / 100) 0 ''put'' 0
       = Inr (if ln (100 / 90) + (5 / 100 - 0) * 1 = (0::real) then NaN
              else Fin (max (90 * exp (- (5 / 100) * 1) - 100 * exp (- 0 * 1)) 0))"
  using degenerate_inputs_divide_by_zero [of 100 90 1 0 "5 / 100" 0]
  by simp

text \<open>
  The claim as stated fails: for a call at the money at expiry (\<open>S = K = 100\<close>,
  \<open>T = 0\<close>, \<open>sigma = 0.2\<close>) \<open>bs_pricing\<close> returns \<open>nan\<close>, not the intrinsic value \<open>0\<close>.
\<close>

theorem bs_pricing_at_expiry_nan:
  "bs_pricing 100 100 0 (5 / 100) (2 / 10) ''call'' 0 = Inr NaN"
  by (simp add: bs_pricing_def py_div_def lower_def lower_char_def)

section \<open>The Monte Carlo estimator\<close>

lemma mc_price_of_draws_kind:
  assumes "is_kind option_type"
  shows "mc_price_of_draws S K T r sigma option_type q Z
           = Inr (mc_estimate S K T r sigma option_type q Z)"
  using assms
  by (auto simp add: mc_price_of_draws_def mc_estimate_def is_kind_def payoff_of_def Let_def
      comp_def)

lemma mc_pricing_kind:
  assumes "is_kind option_type" "0 \<le> n"
  shows "mc_pricing S K T r sigma option_type n q g
           = (Inr (mc_estimate S K T r sigma option_type q (stake (nat n) g)), sdrop (nat n) g)"
  using assms by (simp add: mc_pricing_def standard_normal_def mc_price_of_draws_kind)

lemma terminal_price_finite:
  assumes "0 \<le> T"
  shows "terminal_price S T r sigma q z = Fin (terminal_formula S T r sigma q z)"
  using assms by (simp add: terminal_price_def terminal_formula_def)

lemma payoff_of_finite:
  "payoff_of option_type K (Fin s) = Fin (payoff_formula option_type K s)"
  by (simp add: payoff_of_def payoff_formula_def max_def)

lemma np_sum_finite: "np_sum (map Fin xs) = Fin (sum_list xs)"
  by (induction xs) simp_all

lemma np_mean_finite:
  assumes "xs \<noteq> []"
  shows "np_mean (map Fin xs) = Fin (sum_list xs / real (length xs))"
  using assms by (simp add: np_mean_def np_sum_finite)

lemma mc_estimate_finite:
  assumes "0 \<le> T" "Z \<noteq> []"
  shows "mc_estimate S K T r sigma option_type q Z
           = Fin (exp (- r * T)
                   * (sum_list (map (\<lambda>z. payoff_formula option_type K
                                            (terminal_formula S T r sigma q z)) Z)
                        / real (length Z)))"
proof -
  have "map (payoff_of option_type K) (map (terminal_price S T r sigma q) Z)
          = map Fin (map (\<lambda>z. payoff_formula option_type K (terminal_formula S T r sigma q z)) Z)"
    using assms(1) by (simp add: terminal_price_finite payoff_of_finite)
  then show ?thesis
    using assms(2) by (simp add: mc_estimate_def np_mean_finite del: map_map)
qed

text \<open>
  Claim C7. For a valid option (\<open>S > 0\<close>, \<open>K > 0\<close>, \<open>T \<ge> 0\<close>, \<open>sigma \<ge> 0\<close>, call or put),
  a path count \<open>n > 0\<close> and the \<open>n\<close> draws \<open>Z\<close> that the random source yields,
  \<open>mc_pricing\<close> returns \<open>e\<^sup>-\<^sup>r\<^sup>T\<close> times the mean of the payoffs, the payoff of a draw
  \<open>z\<close> being \<open>max(S\<^sub>T - K, 0)\<close> for a call and \<open>max(K - S\<^sub>T, 0)\<close> for a put at the
  terminal price \<open>S\<^sub>T = S exp((r - q - sigma\<^sup>2/2) T + sigma sqrt(T) z)\<close>.
\<close>

theorem mc_pricing_estimator:
  assumes "0 < S" "0 < K" "0 \<le> T" "0 \<le> sigma" "is_kind option_type" "0 < n"
  shows "fst (mc_pricing S K T r sigma option_type n q g)
           = Inr (Fin (exp (- r * T)
                   * (sum_list (map (\<lambda>z. payoff_formula option_type K
                                            (terminal_formula S T r sigma q z))
                                  (stake (nat n) g))
                        / real_of_int n)))"
proof -
  have "stake (nat n) g \<noteq> []" using assms(6) by (cases "nat n") auto
  then show ?thesis
    using assms(3,5,6) by (simp add: mc_pricing_kind mc_estimate_finite)
qed

theorem mc_pricing_estimator_witness:
  "(0::real) < 100 \<and> (0::real) < 115 \<and> (0::real) \<le> 1 / 2 \<and> (0::real) \<le> 2 / 10
   \<and> is_kind ''Call'' \<and> (0::int) < 2
   \<and> fst (mc_pricing 100 115 (1 / 2) (5 / 100) (2 / 10) ''Call'' 2 0 (1 ## 2 ## sconst 0))
       = Inr (Fin (exp (- (5 / 100) * (1 / 2))
               * (sum_list (map (\<lambda>z. payoff_formula ''Call'' 115
                                        (terminal_formula 100 (1 / 2) (5 / 100) (2 / 10) 0 z))
                              (stake (nat 2) (1 ## 2 ## sconst 0)))
                    / real_of_int 2)))"
proof -
  have k: "is_kind ''Call''" by (simp add: is_kind_def lower_def lower_char_def)
  show ?thesis
    using mc_pricing_estimator [of 100 115 "1 / 2" "2 / 10" "''Call''" 2 "5 / 100" 0
        "1 ## 2 ## sconst 0"] k
    by simp
qed

section \<open>The convergence series\<close>

lemma mc_convergence_loop_prices:
  assumes "is_kind option_type" "\<forall>n\<in>set n_values. 0 \<le> n"
  shows "fst (mc_convergence_loop S K T r sigma option_type q n_values prices g)
           = Inr (PyList (prices
                   @ map PyFloat (convergence_prices S K T r sigma option_type q n_values g)))"
  using assms
proof (induction n_values arbitrary: prices g)
  case Nil
  then show ?case by simp
next
  case (Cons n ns)
  then show ?case by (simp add: mc_pricing_kind)
qed

lemma length_convergence_prices:
  "length (convergence_prices S K T r sigma option_type q n_values g) = length n_values"
  by (induction n_values arbitrary: g) simp_all

text \<open>
  Claim C9, as the code has it. For a call or a put and path counts that are not
  negative, \<open>mc_convergence\<close> returns a list of bare prices, not of pairs: it has one
  price per element of the input sequence, in the order of the input, and the price at
  position \<open>i\<close> is the Monte Carlo estimate at the path count at position \<open>i\<close>, on the
  next draws of the random source. The path counts are not part of the result.
\<close>

theorem mc_convergence_prices:
  assumes "is_kind option_type" "\<forall>n\<in>set n_values. 0 \<le> n"
  shows "fst (mc_convergence S K T r sigma option_type q n_values g)
           = Inr (PyList (map PyFloat (convergence_prices S K T r sigma option_type q n_values g)))
       \<and> length (convergence_prices S K T r sigma option_type q n_values g) = length n_values"
  using mc_convergence_loop_prices [OF assms, of S K T r sigma q "[]" g]
  by (simp add: mc_convergence_def length_convergence_prices)

theorem mc_convergence_prices_witness:
  "is_kind ''call'' \<and> (0::int) \<le> 1 \<and> (0::int) \<le> 2
   \<and> fst (mc_convergence 110 100 1 0 0 ''call'' 0 [1, 2] (sconst 0))
       = Inr (PyList (map PyFloat (convergence_prices 110 100 1 0 0 ''call'' 0 [1, 2] (sconst 0))))
   \<and> length (convergence_prices 110 100 1 0 0 ''call'' 0 [1, 2] (sconst 0)) = length [1, 2 :: int]"
proof -
  have k: "is_kind ''call''" by (simp add: is_kind_def lower_def lower_char_def)
  have n: "\<forall>n\<in>set [1, 2 :: int]. 0 \<le> n" by simp
  show ?thesis
    using mc_convergence_prices [OF k n, of 110 100 1 0 0 0 "sconst 0"] k n by simp
qed

text \<open>
  The claim as stated fails: for the input sequence \<open>[1]\<close> the result is the list
  \<open>[10.0]\<close>, whose element is a float and not the pair \<open>(1, 10.0)\<close>.
\<close>

theorem mc_convergence_returns_bare_prices:
  "fst (mc_convergence 110 100 1 0 0 ''call'' 0 [1] (sconst 0)) = Inr (PyList [PyFloat (Fin 10)])
   \<and> \<not> is_count_price_pair 1 (PyFloat (Fin 10))"
  by (simp add: mc_convergence_def mc_pricing_def standard_normal_def mc_price_of_draws_def
      terminal_price_def np_mean_def lower_def lower_char_def)

section \<open>The implied volatility stays in its search interval\<close>

lemma clamp_sigma_Fin: "clamp_sigma (Fin x) = Fin (max (min x 5) (1 / 10 ^ 6))"
  by (simp add: clamp_sigma_def py_min_def py_max_def np_gt_def max_def min_def)

lemma clamp_sigma_range:
  assumes "clamp_sigma x = Fin s"
  shows "1 / 10 ^ 6 \<le> s \<and> s \<le> 5"
  using assms
  by (cases x) (auto simp add: clamp_sigma_def py_min_def py_max_def np_gt_def split: if_splits)

lemma bisection_inside:
  assumes "bisection market_price S K T r option_type q tolerance_price i low high = Inr (Some s)"
    and "low < high"
  shows "low < s \<and> s < high"
  using assms
proof (induction i arbitrary: low high)
  case 0
  then show ?case by simp
next
  case (Suc i)
  let ?mid = "(low + high) / 2"
  have mid: "low < ?mid" "?mid < high" using Suc.prems(2) by simp_all
  from Suc.prems(1) obtain price where
    price: "bs_pricing S K T r ?mid option_type q = Inr price"
    by (auto simp add: Let_def split: sum.splits)
  show ?case
  proof (cases "np_lt (np_abs (price - Fin market_price)) (Fin tolerance_price)")
    case True
    with Suc.prems(1) price have "s = ?mid" by (simp add: Let_def)
    with mid show ?thesis by simp
  next
    case False
    show ?thesis
    proof (cases "np_gt price (Fin market_price)")
      case True
      with False Suc.prems(1) price
      have "bisection market_price S K T r option_type q tolerance_price i low ?mid = Inr (Some s)"
        by (simp add: Let_def)
      from Suc.IH [OF this mid(1)] mid show ?thesis by simp
    next
      case g: False
      with False Suc.prems(1) price
      have "bisection market_price S K T r option_type q tolerance_price i ?mid high = Inr (Some s)"
        by (simp add: Let_def)
      from Suc.IH [OF this mid(2)] mid show ?thesis by simp
    qed
  qed
qed

lemma bisection_phase_inside:
  assumes "bisection_phase market_price S K T r option_type error_tolerance max_iter q = Inr (Some s)"
  shows "1 / 10 ^ 6 < s \<and> s < 5"
  using bisection_inside [of market_price S K T r option_type q _ max_iter "1 / 10 ^ 6" 5 s] assms
  by (simp add: bisection_phase_def)

lemma newton_range:
  assumes "newton market_price S K T r option_type error_tolerance max_iter q i sigma = Inr (Some s)"
    and "1 / 10 ^ 6 \<le> sigma" "sigma \<le> 5"
  shows "1 / 10 ^ 6 \<le> s \<and> s \<le> 5"
  using assms
proof (induction i arbitrary: sigma)
  case 0
  then show ?case using bisection_phase_inside by fastforce
next
  case (Suc i)
  from Suc.prems(1) obtain model_price g where
    mp: "bs_pricing S K T r sigma option_type q = Inr model_price"
    and g: "bs_greeks S K T r sigma option_type q = Inr g"
    by (auto split: sum.splits)
  let ?difference = "model_price - Fin market_price"
  let ?phase = "bisection_phase market_price S K T r option_type error_tolerance max_iter q"
  show ?case
  proof (cases "np_lt (np_abs ?difference) (Fin (error_tolerance * max 1 market_price))")
    case True
    with Suc.prems mp g show ?thesis by simp
  next
    case conv: False
    show ?thesis
    proof (cases "np_lt (vega g) (Fin (1 / 10 ^ 8))")
      case True
      with conv Suc.prems(1) mp g have "?phase = Inr (Some s)" by simp
      from bisection_phase_inside [OF this] show ?thesis by simp
    next
      case flat: False
      show ?thesis
      proof (cases "clamp_sigma (Fin sigma - ?difference / vega g)")
        case (Fin sigma')
        with conv flat Suc.prems(1) mp g
        have "newton market_price S K T r option_type error_tolerance max_iter q i sigma'
                = Inr (Some s)" by simp
        from Suc.IH [OF this] clamp_sigma_range [OF Fin] show ?thesis by simp
      next
        case PInf
        with conv flat Suc.prems(1) mp g have "?phase = Inr (Some s)" by simp
        from bisection_phase_inside [OF this] show ?thesis by simp
      next
        case MInf
        with conv flat Suc.prems(1) mp g have "?phase = Inr (Some s)" by simp
        from bisection_phase_inside [OF this] show ?thesis by simp
      next
        case NaN
        with conv flat Suc.prems(1) mp g have "?phase = Inr (Some s)" by simp
        from bisection_phase_inside [OF this] show ?thesis by simp
      qed
    qed
  qed
qed

text \<open>
  Claim C10. Whenever \<open>implied_volatility\<close> returns a number and not \<open>None\<close>, the
  number lies in the closed interval from \<open>1e-6\<close> to \<open>5.0\<close>. The initial guess
  \<open>0.3\<close> lies inside, \<open>clamp_sigma_range\<close> keeps every Newton update inside, and by
  \<open>bisection_inside\<close> every midpoint lies strictly between the bounds.
\<close>

theorem implied_volatility_range:
  assumes "implied_volatility market_price S K T r option_type error_tolerance max_iter q
             = Inr (Some s)"
  shows "1 / 10 ^ 6 \<le> s \<and> s \<le> 5"
  using newton_range [of market_price S K T r option_type error_tolerance "nat max_iter" q
      "nat max_iter" "3 / 10" s] assms
  by (simp add: implied_volatility_def)

section \<open>The Newton-Raphson phase\<close>

lemma bs_pricing_kind:
  assumes "0 < S" "0 < K" "0 < T" "0 < sigma" "is_kind option_type"
  shows "bs_pricing S K T r sigma option_type q
           = Inr (Fin (price_formula option_type S K T r sigma q))"
proof -
  have ne: "sigma \<noteq> 0" using assms(4) by simp
  show ?thesis
    using bs_pricing_finite [OF assms(1-3) ne, of r option_type q] assms(5)
    by (auto simp add: is_kind_def price_formula_def)
qed

lemma bs_greeks_kind:
  assumes "0 < S" "0 < K" "0 < T" "0 < sigma" "is_kind option_type"
  shows "\<exists>g. bs_greeks S K T r sigma option_type q = Inr g
           \<and> vega g = Fin (vega_formula S K T r sigma q)"
proof -
  have ne: "sigma \<noteq> 0" using assms(4) by simp
  show ?thesis
    using bs_greeks_finite [OF assms(1-3) ne assms(5), of r q] by blast
qed

lemma newton_step:
  assumes "0 < S" "0 < K" "0 < T" "0 < sigma" "is_kind option_type"
  shows "newton market_price S K T r option_type error_tolerance max_iter q (Suc i) sigma =
           (let model_price = price_formula option_type S K T r sigma q;
                vega_v = vega_formula S K T r sigma q
            in if \<bar>model_price - market_price\<bar> < error_tolerance * max 1 market_price
               then Inr (Some sigma)
               else if vega_v < 1 / 10 ^ 8
               then bisection_phase market_price S K T r option_type error_tolerance max_iter q
               else newton market_price S K T r option_type error_tolerance max_iter q i
                      (max (min (sigma - (model_price - market_price) / vega_v) 5) (1 / 10 ^ 6)))"
proof -
  obtain g where g: "bs_greeks S K T r sigma option_type q = Inr g"
      "vega g = Fin (vega_formula S K T r sigma q)"
    using bs_greeks_kind [OF assms] by blast
  show ?thesis
    by (simp add: bs_pricing_kind [OF assms] g Let_def clamp_sigma_Fin)
qed


lemma newton_step_pos:
  assumes "0 < S" "0 < K" "0 < T" "0 < sigma" "is_kind option_type" "0 < i"
  shows "newton market_price S K T r option_type error_tolerance max_iter q i sigma =
           (let model_price = price_formula option_type S K T r sigma q;
                vega_v = vega_formula S K T r sigma q
            in if \<bar>model_price - market_price\<bar> < error_tolerance * max 1 market_price
               then Inr (Some sigma)
               else if vega_v < 1 / 10 ^ 8
               then bisection_phase market_price S K T r option_type error_tolerance max_iter q
               else newton market_price S K T r option_type error_tolerance max_iter q (i - 1)
                      (max (min (sigma - (model_price - market_price) / vega_v) 5) (1 / 10 ^ 6)))"
  using newton_step [OF assms(1-5), where i = "i - 1"] assms(6)
  by simp


lemma kind_call: "is_kind ''call''" "lower ''call'' = ''call''"
  by (simp_all add: is_kind_def lower_def lower_char_def)

text \<open>
  Claim C3. \<open>implied_volatility\<close> runs the Newton-Raphson loop from \<open>sigma = 0.3\<close>
  for at most \<open>max_iter\<close> iterations, and goes on to the bisection phase when none is
  left. For positive \<open>S\<close>, \<open>K\<close>, \<open>T\<close> and a call or a put, an iteration at a positive
  \<open>sigma\<close> returns \<open>sigma\<close> if the model price is within
  \<open>error_tolerance * max(1, market_price)\<close> of the market price; otherwise it goes on to
  the bisection phase if vega is below \<open>1e-8\<close>; otherwise it continues with
  \<open>sigma - (model price - market price) / vega\<close> clamped into the interval from
  \<open>1e-6\<close> to \<open>5.0\<close>, which is positive again.
\<close>

theorem newton_phase:
  assumes "0 < S" "0 < K" "0 < T" "0 < sigma" "is_kind option_type"
  shows "implied_volatility market_price S K T r option_type error_tolerance max_iter q
           = newton market_price S K T r option_type error_tolerance (nat max_iter) q
               (nat max_iter) (3 / 10)
       \<and> newton market_price S K T r option_type error_tolerance m q 0 sigma
           = bisection_phase market_price S K T r option_type error_tolerance m q
       \<and> newton market_price S K T r option_type error_tolerance m q (Suc i) sigma =
           (let model_price = price_formula option_type S K T r sigma q;
                vega_v = vega_formula S K T r sigma q
            in if \<bar>model_price - market_price\<bar> < error_tolerance * max 1 market_price
               then Inr (Some sigma)
               else if vega_v < 1 / 10 ^ 8
               then bisection_phase market_price S K T r option_type error_tolerance m q
               else newton market_price S K T r option_type error_tolerance m q i
                      (max (min (sigma - (model_price - market_price) / vega_v) 5) (1 / 10 ^ 6)))"
  using newton_step [OF assms] by (simp add: implied_volatility_def)

theorem newton_phase_witness:
  "(0::real) < 100 \<and> (0::real) < 115 \<and> (0::real) < 1 / 2 \<and> (0::real) < 3 / 10 \<and> is_kind ''call''
   \<and> implied_volatility 5 100 115 (1 / 2) (5 / 100) ''call'' (1 / 10 ^ 4) 100 0
       = newton 5 100 115 (1 / 2) (5 / 100) ''call'' (1 / 10 ^ 4) (nat 100) 0 (nat 100) (3 / 10)
   \<and> newton 5 100 115 (1 / 2) (5 / 100) ''call'' (1 / 10 ^ 4) 100 0 0 (3 / 10)
       = bisection_phase 5 100 115 (1 / 2) (5 / 100) ''call'' (1 / 10 ^ 4) 100 0
   \<and> newton 5 100 115 (1 / 2) (5 / 100) ''call'' (1 / 10 ^ 4) 100 0 (Suc 99) (3 / 10) =
       (let model_price = price_formula ''call'' 100 115 (1 / 2) (5 / 100) (3 / 10) 0;
            vega_v = vega_formula 100 115 (1 / 2) (5 / 100) (3 / 10) 0
        in if \<bar>model_price - 5\<bar> < (1 / 10 ^ 4) * max 1 5
           then Inr (Some (3 / 10))
           else if vega_v < 1 / 10 ^ 8
           then bisection_phase 5 100 115 (1 / 2) (5 / 100) ''call'' (1 / 10 ^ 4) 100 0
           else newton 5 100 115 (1 / 2) (5 / 100) ''call'' (1 / 10 ^ 4) 100 0 99
                  (max (min (3 / 10 - (model_price - 5) / vega_v) 5) (1 / 10 ^ 6)))"
  using newton_phase [of 100 115 "1 / 2" "3 / 10" "''call''" 5 "5 / 100" "1 / 10 ^ 4" 100 0 100 99]
    kind_call(1)
  by simp

section \<open>No implied volatility found\<close>




subsection \<open>Crude bounds on the distribution function\<close>










subsection \<open>Runs of the solver on concrete inputs\<close>



lemma exact_price_accepted:
  "implied_volatility (call_formula 100 100 1 0 (3 / 10) 0) 100 100 1 0 ''call'' (1 / 10 ^ 4) 100 0
     = Inr (Some (3 / 10))"
  by (simp add: implied_volatility_def newton_step_pos kind_call Let_def price_formula_def
      less_max_iff_disj)




theorem implied_volatility_range_witness:
  "implied_volatility (call_formula 100 100 1 0 (3 / 10) 0) 100 100 1 0 ''call'' (1 / 10 ^ 4) 100 0
     = Inr (Some (3 / 10))
   \<and> (1 / 10 ^ 6 \<le> (3 / 10 :: real) \<and> (3 / 10 :: real) \<le> 5)"
  using implied_volatility_range [OF exact_price_accepted] exact_price_accepted by simp

section \<open>An option type that is neither call nor put\<close>

text \<open>
  Claim C5, as the code has it. For an option type whose lower-case form is neither
  \<open>call\<close> nor \<open>put\<close>, every pricing operation raises and returns no value, but there
  is no check of the argument: the operation computes first, falls through its
  \<open>if\<close>/\<open>elif\<close>, and raises \<open>UnboundLocalError\<close> when it reads the variable that no
  branch assigned, unless an error of the arithmetic or of the draw comes first
  (\<open>ZeroDivisionError\<close> for \<open>K = 0\<close> in \<open>bs_pricing\<close>, the error of \<open>d_1\<close> in
  \<open>bs_greeks\<close>, \<open>ValueError\<close> for a negative path count).
\<close>

theorem unrecognized_kind_raises:
  assumes "\<not> is_kind option_type"
  shows "bs_pricing S K T r sigma option_type q
           = Inl (if K = 0 then ZeroDivisionError else UnboundLocalError)
       \<and> bs_greeks S K T r sigma option_type q
           = Inl (case d_1 S K T r sigma q of Inl e \<Rightarrow> e | Inr d1 \<Rightarrow> UnboundLocalError)
       \<and> fst (mc_pricing S K T r sigma option_type n q g)
           = Inl (if n < 0 then ValueError else UnboundLocalError)
       \<and> fst (mc_greeks S K T r sigma option_type n h dt q g)
           = Inl (if n < 0 then ValueError else UnboundLocalError)"
proof -
  have k: "lower option_type \<noteq> ''call''" "lower option_type \<noteq> ''put''"
    using assms by (simp_all add: is_kind_def)
  have 1: "bs_pricing S K T r sigma option_type q
             = Inl (if K = 0 then ZeroDivisionError else UnboundLocalError)"
    using k by (simp add: bs_pricing_def py_div_def Let_def)
  have 2: "bs_greeks S K T r sigma option_type q
             = Inl (case d_1 S K T r sigma q of Inl e \<Rightarrow> e | Inr d1 \<Rightarrow> UnboundLocalError)"
  proof (cases "d_1 S K T r sigma q")
    case (Inl e)
    then show ?thesis by (simp add: bs_greeks_def)
  next
    case (Inr d1)
    then have "\<not> T < 0"
      by (auto simp add: d_1_def math_sqrt_def split: sum.splits if_splits)
    with Inr show ?thesis
      using k by (simp add: bs_greeks_def d_2_def math_sqrt_def Let_def)
  qed
  have 3: "fst (mc_pricing S K T r sigma option_type n q g)
             = Inl (if n < 0 then ValueError else UnboundLocalError)"
    using k by (simp add: mc_pricing_def standard_normal_def mc_price_of_draws_def Let_def)
  have 4: "fst (mc_greeks S K T r sigma option_type n h dt q g)
             = Inl (if n < 0 then ValueError else UnboundLocalError)"
    using k by (simp add: mc_greeks_def standard_normal_def mc_greeks_of_draws_def)
  from 1 2 3 4 show ?thesis by simp
qed

lemma kind_straddle: "\<not> is_kind ''straddle''"
  by (simp add: is_kind_def lower_def lower_char_def)

theorem unrecognized_kind_raises_witness:
  "\<not> is_kind ''straddle''
   \<and> bs_pricing 100 115 (1 / 2) (5 / 100) (2 / 10) ''straddle'' 0
       = Inl (if (115::real) = 0 then ZeroDivisionError else UnboundLocalError)
   \<and> bs_greeks 100 115 (1 / 2) (5 / 100) (2 / 10) ''straddle'' 0
       = Inl (case d_1 100 115 (1 / 2) (5 / 100) (2 / 10) 0 of Inl e \<Rightarrow> e
              | Inr d1 \<Rightarrow> UnboundLocalError)
   \<and> fst (mc_pricing 100 115 (1 / 2) (5 / 100) (2 / 10) ''straddle'' 10 0 (sconst 0))
       = Inl (if (10::int) < 0 then ValueError else UnboundLocalError)
   \<and> fst (mc_greeks 100 115 (1 / 2) (5 / 100) (2 / 10) ''straddle'' 10 (1 / 100) (1 / 100) 0
            (sconst 0))
       = Inl (if (10::int) < 0 then ValueError else UnboundLocalError)"
  using unrecognized_kind_raises [OF kind_straddle, of 100 115 "1 / 2" "5 / 100" "2 / 10" 0 10
      "sconst 0" "1 / 100" "1 / 100"] kind_straddle
  by simp

text \<open>
  The claim as stated fails: \<open>bs_pricing\<close> with the option type \<open>straddle\<close> raises
  \<open>UnboundLocalError\<close>, which is not an error about an argument.
\<close>

theorem unrecognized_kind_unbound_local:
  "bs_pricing 100 115 (1 / 2) (5 / 100) (2 / 10) ''straddle'' 0 = Inl UnboundLocalError
   \<and> UnboundLocalError \<noteq> ValueError"
  by (simp add: bs_pricing_def py_div_def lower_def lower_char_def)

section \<open>Numeric arguments are not checked\<close>












end
